theory Spec2Isabelle
  imports Complex_Main "HOL-Library.Char_ord" "HOL-Library.List_Lexorder"
    "HOL-Library.Product_Lexorder" "HOL-Library.Multiset"
begin

section \<open>Python values shared by the modules\<close>

text \<open>
  The exceptions the modelled code can raise. A function that can raise returns
  \<open>error + 'a\<close>, with \<open>Inl\<close> for the exception.
\<close>

datatype error = TypeError | ValueError | AttributeError | ZeroDivisionError

text \<open>
  A \<open>datetime\<close> object is the tuple of its fields (year, month, day, hour, minute,
  second, microsecond); two naive datetimes compare as these tuples do, which is the
  lexicographic order of the product type.
\<close>

type_synonym datetime = "nat \<times> nat \<times> nat \<times> nat \<times> nat \<times> nat \<times> nat"

text \<open>
  A timestamp as the map generator meets it: the code tests \<open>isinstance(t, str)\<close>
  everywhere, so a timestamp is a \<open>datetime\<close> object or a \<open>str\<close>.
\<close>

datatype tstamp = TDatetime datetime | TStr string

text \<open>
  \<open>a < b\<close> on two timestamps: two datetimes or two strings compare, a datetime and a
  string raise \<open>TypeError\<close>.
\<close>

fun py_lt :: "tstamp \<Rightarrow> tstamp \<Rightarrow> error + bool" where
  "py_lt (TDatetime a) (TDatetime b) = Inr (a < b)"
| "py_lt (TStr a) (TStr b) = Inr (a < b)"
| "py_lt (TDatetime a) (TStr b) = Inl TypeError"
| "py_lt (TStr a) (TDatetime b) = Inl TypeError"

text \<open>
  \<open>list.sort(key=f)\<close> where the keys are timestamps. The library's sort is stable and
  uses only \<open><\<close> on the keys; it is modelled by the stable insertion sort that takes the
  elements from left to right and puts each one before the first element of the sorted
  prefix that it is smaller than. A comparison that raises ends the sort with the
  exception.
\<close>

fun py_insort :: "('a \<Rightarrow> tstamp) \<Rightarrow> 'a \<Rightarrow> 'a list \<Rightarrow> error + 'a list" where
  "py_insort f x [] = Inr [x]"
| "py_insort f x (y # ys) =
     (case py_lt (f x) (f y) of
        Inl e \<Rightarrow> Inl e
      | Inr b \<Rightarrow>
          if b then Inr (x # y # ys)
          else (case py_insort f x ys of Inl e \<Rightarrow> Inl e | Inr zs \<Rightarrow> Inr (y # zs)))"

fun py_sort_from :: "('a \<Rightarrow> tstamp) \<Rightarrow> 'a list \<Rightarrow> 'a list \<Rightarrow> error + 'a list" where
  "py_sort_from f acc [] = Inr acc"
| "py_sort_from f acc (x # xs) =
     (case py_insort f x acc of Inl e \<Rightarrow> Inl e | Inr acc' \<Rightarrow> py_sort_from f acc' xs)"

definition py_sort :: "('a \<Rightarrow> tstamp) \<Rightarrow> 'a list \<Rightarrow> error + 'a list" where
  "py_sort f xs = py_sort_from f [] xs"

section \<open>fixed_map_generator.py: create_direct_map\<close>

subsection \<open>Rows, events and the map\<close>

text \<open>
  A row of \<open>get_locations_from_db\<close> is \<open>(lat, lon, time_str, session_id, loc_type)\<close>,
  a row of \<open>get_status_history_from_db\<close> is \<open>(id, user_id, status, timestamp)\<close>.
  Coordinates are floats, taken here as real numbers.
\<close>

type_synonym location_row = "real \<times> real \<times> tstamp \<times> string \<times> string"
type_synonym status_row = "nat \<times> nat \<times> string \<times> tstamp"

text \<open>
  \<open>location_events\<close> holds tuples \<open>(time_key, lat, lon, loc_type, timestamp)\<close>;
  \<open>all_events\<close> holds \<open>("status", time_key, status)\<close> and
  \<open>("location", time_key, lat, lon, loc_type, timestamp)\<close>.
\<close>

type_synonym location_event = "tstamp \<times> real \<times> real \<times> string \<times> tstamp"

datatype event =
    Status tstamp string
  | Location tstamp real real string tstamp

text \<open>
  What is added to the folium map. The HTML of a popup is not modelled, only the
  information it is built from; the status it shows is kept as a field.
\<close>

datatype icon = InfoSign | Play | Stop | Pause

datatype popup =
    NoLocationData
  | StatusList "(tstamp \<times> string) list"
  | StatusChange tstamp string
  | PointInfo string
  | SegmentStart nat string
  | SegmentEnd nat string
  | SegmentInfo nat string nat
  | RouteStart
  | RouteEnd

datatype element =
    Marker "real \<times> real" string icon popup
  | CircleMarker "real \<times> real" nat string popup
  | PolyLine "(real \<times> real) list" string popup

record folium_map =
  location :: "real \<times> real"
  zoom_start :: nat
  elements :: "element list"
  map_filename :: string

subsection \<open>Building the merged timeline\<close>

text \<open>\<open>t[:19]\<close> where \<open>t\<close> is a string; a datetime is kept as it is.\<close>

fun time_key_of :: "tstamp \<Rightarrow> tstamp" where
  "time_key_of (TStr s) = TStr (take 19 s)"
| "time_key_of (TDatetime d) = TDatetime d"

definition status_events_of :: "status_row list \<Rightarrow> error + (tstamp \<times> string) list" where
  "status_events_of status_history =
     py_sort fst
       (map (\<lambda>(status_id, u_id, status, status_timestamp).
               (time_key_of status_timestamp, status)) status_history)"

definition location_events_of :: "location_row list \<Rightarrow> error + location_event list" where
  "location_events_of valid_locations =
     (case py_sort (\<lambda>(lat, lon, time_str, session_id, loc_type). time_str) valid_locations of
        Inl e \<Rightarrow> Inl e
      | Inr sorted_locations \<Rightarrow>
          py_sort fst
            (map (\<lambda>(lat, lon, timestamp, session_id, loc_type).
                    (time_key_of timestamp, lat, lon, loc_type, timestamp)) sorted_locations))"

text \<open>
  \<open>safe_sort_key\<close>. \<open>datetime.strptime(s, '%Y-%m-%d %H:%M:%S')\<close> is a library
  function; it is the parameter \<open>strptime\<close>, which returns \<open>None\<close> where the library
  raises. The key of a string that parses is the parsed datetime, the key of a string
  that does not parse is the string itself.
\<close>

fun event_time_key :: "event \<Rightarrow> tstamp" where
  "event_time_key (Status time_key status) = time_key"
| "event_time_key (Location time_key lat lon loc_type timestamp) = time_key"

definition safe_sort_key :: "(string \<Rightarrow> datetime option) \<Rightarrow> event \<Rightarrow> tstamp" where
  "safe_sort_key strptime ev =
     (case event_time_key ev of
        TStr time_key \<Rightarrow>
          (case strptime (take 19 time_key) of
             Some d \<Rightarrow> TDatetime d
           | None \<Rightarrow> TStr time_key)
      | TDatetime d \<Rightarrow> TDatetime d)"

definition all_events_of ::
  "(string \<Rightarrow> datetime option) \<Rightarrow> (tstamp \<times> string) list \<Rightarrow> location_event list
     \<Rightarrow> error + event list" where
  "all_events_of strptime status_events location_events =
     py_sort (safe_sort_key strptime)
       (map (\<lambda>(time_key, status). Status time_key status) status_events @
        map (\<lambda>(time_key, lat, lon, loc_type, timestamp).
               Location time_key lat lon loc_type timestamp) location_events)"

subsection \<open>The segmentation loop\<close>

text \<open>
  The key of the sort that looks for the location nearest to a status change:
  \<open>abs(len(str(x[0])[:19]) - len(status_time_str)) if isinstance(x[0], str) else 9999\<close>
  with \<open>status_time_str = str(time_key)[:19]\<close>. \<open>str\<close> of a datetime has at least 19
  characters, so its first 19 characters have length 19.
\<close>

fun status_time_len :: "tstamp \<Rightarrow> nat" where
  "status_time_len (TStr s) = length (take 19 s)"
| "status_time_len (TDatetime d) = 19"

fun nearest_key :: "nat \<Rightarrow> location_event \<Rightarrow> int" where
  "nearest_key n (TStr s, lat, lon, loc_type, timestamp) =
     \<bar>int (length (take 19 s)) - int n\<bar>"
| "nearest_key n (TDatetime d, lat, lon, loc_type, timestamp) = 9999"

text \<open>
  \<open>sorted(location_events, key=...)[0]\<close>: the keys are integers, so the sort cannot
  raise; a stable sort puts first the first element whose key is least.
\<close>

definition closest_location :: "location_event list \<Rightarrow> tstamp \<Rightarrow> location_event option" where
  "closest_location location_events time_key =
     (case sort_key (nearest_key (status_time_len time_key)) location_events of
        [] \<Rightarrow> None
      | closest # rest \<Rightarrow> Some closest)"

record loop_state =
  path_segments :: "(real \<times> real) list list"
  current_segment :: "(real \<times> real) list"
  current_status :: string
  added :: "element list"

text \<open>The marker of a location point: its icon follows \<open>loc_type\<close>.\<close>

definition point_marker :: "real \<times> real \<Rightarrow> string \<Rightarrow> string \<Rightarrow> element" where
  "point_marker p loc_type status =
     (if loc_type = ''start'' then Marker p ''green'' Play (PointInfo status)
      else if loc_type = ''end'' then Marker p ''red'' Stop (PointInfo status)
      else if loc_type = ''stationary'' then Marker p ''orange'' Pause (PointInfo status)
      else CircleMarker p 3 ''blue'' (PointInfo status))"

fun loop_step :: "location_event list \<Rightarrow> loop_state \<Rightarrow> event \<Rightarrow> loop_state" where
  "loop_step location_events st (Status time_key status) =
     (let st1 = (if current_segment st \<noteq> []
                 then st\<lparr>path_segments := path_segments st @ [current_segment st],
                         current_segment := []\<rparr>
                 else st);
          st2 = st1\<lparr>current_status := status\<rparr>
      in if location_events \<noteq> [] then
           (case closest_location location_events time_key of
              None \<Rightarrow> st2
            | Some (t, lat, lon, loc_type, timestamp) \<Rightarrow>
                st2\<lparr>added := added st2 @
                  [Marker (lat, lon) ''purple'' InfoSign (StatusChange time_key status)]\<rparr>)
         else st2)"
| "loop_step location_events st (Location time_key lat lon loc_type timestamp) =
     st\<lparr>current_segment := current_segment st @ [(lat, lon)],
        added := added st @ [point_marker (lat, lon) loc_type (current_status st)]\<rparr>"

text \<open>
  The initial status is the Russian word for "unknown" in the source; it is written
  here in Latin letters.
\<close>

definition initial_state :: loop_state where
  "initial_state =
     \<lparr>path_segments = [], current_segment = [], current_status = ''Neizvestno'', added = []\<rparr>"

definition run_loop :: "location_event list \<Rightarrow> event list \<Rightarrow> loop_state" where
  "run_loop location_events all_events = foldl (loop_step location_events) initial_state all_events"

text \<open>After the loop the last segment is added if it is not empty.\<close>

definition close_last :: "loop_state \<Rightarrow> loop_state" where
  "close_last st =
     (if current_segment st \<noteq> []
      then st\<lparr>path_segments := path_segments st @ [current_segment st]\<rparr>
      else st)"

definition segmentation :: "location_event list \<Rightarrow> event list \<Rightarrow> (real \<times> real) list list" where
  "segmentation location_events all_events =
     path_segments (close_last (run_loop location_events all_events))"

text \<open>The points of the location events of a timeline, in the order of the timeline.\<close>

fun location_points :: "event list \<Rightarrow> (real \<times> real) list" where
  "location_points [] = []"
| "location_points (Status time_key status # evs) = location_points evs"
| "location_points (Location time_key lat lon loc_type timestamp # evs) =
     (lat, lon) # location_points evs"

fun status_count :: "event list \<Rightarrow> nat" where
  "status_count [] = 0"
| "status_count (Status time_key status # evs) = Suc (status_count evs)"
| "status_count (Location time_key lat lon loc_type timestamp # evs) = status_count evs"

subsection \<open>Rendering the segments and the whole function\<close>

definition colors :: "string list" where
  "colors = [''blue'', ''red'', ''green'', ''purple'', ''orange'', ''darkred'', ''darkblue'',
     ''darkgreen'', ''cadetblue'', ''darkpurple'']"

text \<open>
  The body of \<open>for i, segment in enumerate(path_segments)\<close>. It runs after the loop
  over the events, and the status it writes into the popups of a segment is the
  variable \<open>current_status\<close> as that loop left it.
\<close>

definition segment_elements :: "string \<Rightarrow> nat \<times> (real \<times> real) list \<Rightarrow> element list" where
  "segment_elements status = (\<lambda>(i, segment).
     if length segment > 1 then
       (let segment_color = colors ! (i mod length colors) in
          [CircleMarker (hd segment) 8 segment_color (SegmentStart (i + 1) status),
           CircleMarker (last segment) 8 segment_color (SegmentEnd (i + 1) status),
           PolyLine segment segment_color (SegmentInfo (i + 1) status (length segment))])
     else [])"

definition route_elements :: "location_event list \<Rightarrow> element list" where
  "route_elements location_events =
     (if location_events \<noteq> [] then
        (case (hd location_events, last location_events) of
           ((t1, lat1, lon1, rest1), (t2, lat2, lon2, rest2)) \<Rightarrow>
             [Marker (lat1, lon1) ''green'' Play RouteStart,
              Marker (lat2, lon2) ''red'' Stop RouteEnd])
      else [])"

definition render :: "location_event list \<Rightarrow> loop_state \<Rightarrow> element list" where
  "render location_events st =
     added st @
     concat (map (segment_elements (current_status st)) (enumerate 0 (path_segments st))) @
     route_elements location_events"

definition default_center :: "real \<times> real" where
  "default_center = (55.7558, 37.6173)"

text \<open>
  The file name \<open>map_{safe_user_name}_{date}.html\<close>; \<open>date\<close> is the date the map is
  asked for (today's when the caller gave none).
\<close>

definition filename_of :: "string \<Rightarrow> string \<Rightarrow> string" where
  "filename_of user_name date =
     ''map_'' @ map (\<lambda>c. if c = CHR '' '' then CHR ''_'' else c) user_name @ ''_'' @ date @
     ''.html''"

text \<open>
  The part of \<open>create_direct_map\<close> from the two sorts of the rows to the end of the
  loop: it gives \<open>location_events\<close> and the state the loop ends in, with the last
  segment closed.
\<close>

definition build_route ::
  "(string \<Rightarrow> datetime option) \<Rightarrow> location_row list \<Rightarrow> status_row list
     \<Rightarrow> error + location_event list \<times> loop_state" where
  "build_route strptime valid_locations status_history =
     (case status_events_of status_history of
        Inl e \<Rightarrow> Inl e
      | Inr status_events \<Rightarrow>
          (case location_events_of valid_locations of
             Inl e \<Rightarrow> Inl e
           | Inr location_events \<Rightarrow>
               (case all_events_of strptime status_events location_events of
                  Inl e \<Rightarrow> Inl e
                | Inr all_events \<Rightarrow>
                    Inr (location_events,
                         close_last (run_loop location_events all_events)))))"

text \<open>
  \<open>create_direct_map\<close>, given the user's name and the rows the two queries returned.
  The value returned is the map that was saved, with its file name. The title of the
  page is not modelled.
\<close>

definition create_direct_map ::
  "(string \<Rightarrow> datetime option) \<Rightarrow> string \<Rightarrow> string \<Rightarrow> location_row list \<Rightarrow> status_row list
     \<Rightarrow> error + folium_map" where
  "create_direct_map strptime user_name date valid_locations status_history =
     (if valid_locations = [] \<and> status_history = [] then
        Inr \<lparr>location = (55.7558, 37.6173), zoom_start = 10,
             elements = [Marker (55.7558, 37.6173) ''gray'' InfoSign NoLocationData],
             map_filename = filename_of user_name date\<rparr>
      else
        (let center =
               (if valid_locations \<noteq> [] then
                  (sum_list (map (\<lambda>(lat, lon, rest). lat) valid_locations) /
                     real (length valid_locations),
                   sum_list (map (\<lambda>(lat, lon, rest). lon) valid_locations) /
                     real (length valid_locations))
                else (55.7558, 37.6173))
         in if valid_locations = [] \<and> status_history \<noteq> [] then
              Inr \<lparr>location = center, zoom_start = 14,
                   elements =
                     [Marker center ''blue'' InfoSign
                        (StatusList (map (\<lambda>(status_id, u_id, status, status_timestamp).
                                            (status_timestamp, status)) status_history))],
                   map_filename = filename_of user_name date\<rparr>
            else
              (case build_route strptime valid_locations status_history of
                 Inl e \<Rightarrow> Inl e
               | Inr (location_events, st) \<Rightarrow>
                   Inr \<lparr>location = center, zoom_start = 14,
                        elements = render location_events st,
                        map_filename = filename_of user_name date\<rparr>)))"

text \<open>The segments and the elements of the map that \<open>create_direct_map\<close> builds.\<close>

definition route_segments ::
  "(string \<Rightarrow> datetime option) \<Rightarrow> location_row list \<Rightarrow> status_row list
     \<Rightarrow> error + (real \<times> real) list list" where
  "route_segments strptime valid_locations status_history =
     (case build_route strptime valid_locations status_history of
        Inl e \<Rightarrow> Inl e
      | Inr (location_events, st) \<Rightarrow> Inr (path_segments st))"

definition map_elements ::
  "(string \<Rightarrow> datetime option) \<Rightarrow> location_row list \<Rightarrow> status_row list
     \<Rightarrow> error + element list" where
  "map_elements strptime valid_locations status_history =
     (case create_direct_map strptime ''user'' ''2024-01-01'' valid_locations status_history of
        Inl e \<Rightarrow> Inl e
      | Inr m \<Rightarrow> Inr (elements m))"

text \<open>
  Reading a list of elements: the polylines with the status their popup shows, the
  markers of the location points with the status they show, and the markers of the
  status changes with the new status.
\<close>

fun polylines :: "element list \<Rightarrow> ((real \<times> real) list \<times> string) list" where
  "polylines [] = []"
| "polylines (PolyLine segment color (SegmentInfo i status n) # es) =
     (segment, status) # polylines es"
| "polylines (e # es) = polylines es"

fun point_markers :: "element list \<Rightarrow> ((real \<times> real) \<times> string) list" where
  "point_markers [] = []"
| "point_markers (Marker p color ic (PointInfo status) # es) = (p, status) # point_markers es"
| "point_markers (CircleMarker p r color (PointInfo status) # es) =
     (p, status) # point_markers es"
| "point_markers (e # es) = point_markers es"

fun status_change_markers :: "element list \<Rightarrow> ((real \<times> real) \<times> string) list" where
  "status_change_markers [] = []"
| "status_change_markers (Marker p color ic (StatusChange t status) # es) =
     (p, status) # status_change_markers es"
| "status_change_markers (e # es) = status_change_markers es"

subsection \<open>Concrete rows\<close>

text \<open>
  Two statuses, \<open>office\<close> at 08:00 and \<open>home\<close> at 17:00, and ten location points
  between 08:05 and 16:55.
\<close>

definition scenario_d_statuses :: "status_row list" where
  "scenario_d_statuses =
     [(1, 7, ''office'', TStr ''2024-01-01 08:00:00''),
      (2, 7, ''home'', TStr ''2024-01-01 17:00:00'')]"

definition scenario_d_locations :: "location_row list" where
  "scenario_d_locations =
     [(55, 37, TStr ''2024-01-01 08:05:00'', ''s1'', ''start''),
      (56, 37, TStr ''2024-01-01 09:00:00'', ''s1'', ''intermediate''),
      (57, 37, TStr ''2024-01-01 10:00:00'', ''s1'', ''moving''),
      (58, 37, TStr ''2024-01-01 11:00:00'', ''s1'', ''intermediate''),
      (59, 37, TStr ''2024-01-01 12:00:00'', ''s1'', ''stationary''),
      (59, 38, TStr ''2024-01-01 13:00:00'', ''s1'', ''intermediate''),
      (58, 38, TStr ''2024-01-01 14:00:00'', ''s1'', ''intermediate''),
      (57, 38, TStr ''2024-01-01 15:00:00'', ''s1'', ''moving''),
      (56, 38, TStr ''2024-01-01 16:00:00'', ''s1'', ''intermediate''),
      (55, 38, TStr ''2024-01-01 16:55:00'', ''s1'', ''end'')]"

definition scenario_d_points :: "(real \<times> real) list" where
  "scenario_d_points =
     [(55, 37), (56, 37), (57, 37), (58, 37), (59, 37),
      (59, 38), (58, 38), (57, 38), (56, 38), (55, 38)]"

text \<open>
  Two statuses, \<open>office\<close> at 08:00 and \<open>home\<close> at 12:00, with two location points
  after each.
\<close>

definition two_segment_statuses :: "status_row list" where
  "two_segment_statuses =
     [(1, 7, ''office'', TStr ''2024-01-01 08:00:00''),
      (2, 7, ''home'', TStr ''2024-01-01 12:00:00'')]"

definition two_segment_locations :: "location_row list" where
  "two_segment_locations =
     [(55, 37, TStr ''2024-01-01 09:00:00'', ''s1'', ''start''),
      (56, 37, TStr ''2024-01-01 10:00:00'', ''s1'', ''intermediate''),
      (57, 37, TStr ''2024-01-01 13:00:00'', ''s1'', ''intermediate''),
      (58, 37, TStr ''2024-01-01 14:00:00'', ''s1'', ''end'')]"

text \<open>
  The location events of a day with one point at 08:05 and one at 16:55, and the time
  of a status change at 17:00.
\<close>

definition morning_evening_events :: "location_event list" where
  "morning_evening_events =
     [(TStr ''2024-01-01 08:05:00'', 55, 37, ''start'', TStr ''2024-01-01 08:05:00''),
      (TStr ''2024-01-01 16:55:00'', 56, 38, ''end'', TStr ''2024-01-01 16:55:00'')]"

text \<open>
  One status with a timestamp of the usual form and one location whose timestamp has no
  seconds, which the library's parser refuses.
\<close>

definition one_status :: "status_row list" where
  "one_status = [(1, 7, ''office'', TStr ''2024-01-01 08:00:00'')]"

definition location_without_seconds :: "location_row list" where
  "location_without_seconds = [(55, 37, TStr ''2024-01-01 12:00'', ''s1'', ''start'')]"

subsection \<open>The library's parser on zero-padded strings\<close>

text \<open>
  \<open>datetime.strptime(s, '%Y-%m-%d %H:%M:%S')\<close> on the strings of the zero-padded form
  \<open>YYYY-MM-DD HH:MM:SS\<close> of 19 characters, which is the form the database writes. It
  is used below only to run the code on concrete rows: on a string of this form it
  returns what the library returns, and the other strings it is run on are refused by
  the library as well. (The library also accepts fields without the leading zero; no
  statement below depends on such a string.)
\<close>

definition digit_of :: "char \<Rightarrow> nat option" where
  "digit_of c = map_of (zip ''0123456789'' [0, 1, 2, 3, 4, 5, 6, 7, 8, 9]) c"

fun digits_value :: "nat \<Rightarrow> string \<Rightarrow> nat option" where
  "digits_value acc [] = Some acc"
| "digits_value acc (c # cs) =
     (case digit_of c of None \<Rightarrow> None | Some d \<Rightarrow> digits_value (10 * acc + d) cs)"

definition days_in_month :: "nat \<Rightarrow> nat \<Rightarrow> nat" where
  "days_in_month y m =
     (if m = 2 then
        (if y mod 4 = 0 \<and> (y mod 400 = 0 \<or> y mod 100 \<noteq> 0) then 29 else 28)
      else if m = 4 \<or> m = 6 \<or> m = 9 \<or> m = 11 then 30 else 31)"

definition field :: "nat \<Rightarrow> nat \<Rightarrow> string \<Rightarrow> nat option" where
  "field start len s = digits_value 0 (take len (drop start s))"

definition strptime_padded :: "string \<Rightarrow> datetime option" where
  "strptime_padded s =
     (if length s = 19 \<and> s ! 4 = CHR ''-'' \<and> s ! 7 = CHR ''-'' \<and> s ! 10 = CHR '' '' \<and>
         s ! 13 = CHR '':'' \<and> s ! 16 = CHR '':'' then
        (case (field 0 4 s, field 5 2 s, field 8 2 s, field 11 2 s, field 14 2 s,
               field 17 2 s) of
           (Some y, Some m, Some d, Some hh, Some mm, Some ss) \<Rightarrow>
             if 1 \<le> y \<and> 1 \<le> m \<and> m \<le> 12 \<and> 1 \<le> d \<and> d \<le> days_in_month y m \<and>
                hh \<le> 23 \<and> mm \<le> 59 \<and> ss \<le> 59
             then Some (y, m, d, hh, mm, ss, 0)
             else None
         | _ \<Rightarrow> None)
      else None)"

section \<open>bot.py and utils.py: distance, speed and the movement classifier\<close>

subsection \<open>Distance and speed\<close>

text \<open>
  A float is a real number, since every double is one. The result of a float operation
  is rounded, and in the distance the rounding can decide whether \<open>math.sqrt\<close> raises.
  So the distance is written with the operations of the platform, which are parameters:
  \<open>fl\<close> gives the double that the exact result of \<open>+\<close>, \<open>-\<close>, \<open>*\<close>, \<open>/\<close> or
  \<open>**\<close> is rounded to, and \<open>fsin\<close>, \<open>fcos\<close>, \<open>fsqrt\<close>, \<open>fatan2\<close> and
  \<open>fradians\<close> are \<open>math.sin\<close>, \<open>math.cos\<close>, \<open>math.sqrt\<close> (on an argument that is
  not negative), \<open>math.atan2\<close> and \<open>math.radians\<close>.
\<close>

record float_ops =
  fl :: "real \<Rightarrow> real"
  fsin :: "real \<Rightarrow> real"
  fcos :: "real \<Rightarrow> real"
  fsqrt :: "real \<Rightarrow> real"
  fatan2 :: "real \<Rightarrow> real \<Rightarrow> real"
  fradians :: "real \<Rightarrow> real"

text \<open>
  The operations without any rounding: the exact functions of real numbers.
  \<open>atan2 y x\<close> is the angle of the point \<open>(x, y)\<close>.
\<close>

definition radians :: "real \<Rightarrow> real" where
  "radians x = x * pi / 180"

definition atan2 :: "real \<Rightarrow> real \<Rightarrow> real" where
  "atan2 y x =
     (if 0 < x then arctan (y / x)
      else if x < 0 then (if 0 \<le> y then arctan (y / x) + pi else arctan (y / x) - pi)
      else if 0 < y then pi / 2
      else if y < 0 then - (pi / 2)
      else 0)"

definition exact_ops :: float_ops where
  "exact_ops =
     \<lparr>fl = (\<lambda>x. x), fsin = sin, fcos = cos, fsqrt = sqrt, fatan2 = atan2,
      fradians = radians\<rparr>"

text \<open>
  What the proofs about the distance use of the operations. Rounding to the nearest
  double keeps 0 and 1 and commutes with the change of sign; the sine, the square root
  and the arc tangent are exact at 0 and 1, and the sine is odd.
\<close>

definition exact_at_zero_and_one :: "float_ops \<Rightarrow> bool" where
  "exact_at_zero_and_one ops \<longleftrightarrow>
     fl ops 0 = 0 \<and> fl ops 1 = 1 \<and> fsin ops 0 = 0 \<and> fsqrt ops 0 = 0 \<and> fsqrt ops 1 = 1 \<and>
     fatan2 ops 0 1 = 0"

definition sign_symmetric :: "float_ops \<Rightarrow> bool" where
  "sign_symmetric ops \<longleftrightarrow>
     (\<forall>x. fl ops (- x) = - fl ops x) \<and> (\<forall>x. fsin ops (- x) = - fsin ops x)"

text \<open>
  \<open>math.sqrt\<close> raises \<open>ValueError\<close> on a negative argument; \<open>x / y\<close> raises
  \<open>ZeroDivisionError\<close> when \<open>y\<close> is zero.
\<close>

definition py_sqrt :: "float_ops \<Rightarrow> real \<Rightarrow> error + real" where
  "py_sqrt ops x = (if x < 0 then Inl ValueError else Inr (fsqrt ops x))"

definition py_truediv :: "real \<Rightarrow> real \<Rightarrow> error + real" where
  "py_truediv x y = (if y = 0 then Inl ZeroDivisionError else Inr (x / y))"

text \<open>
  The value of the variable \<open>a\<close> in the computation of the distance between
  \<open>(prev_lat, prev_lon)\<close> and \<open>(lat, lon)\<close>:
  \<open>sin(dlat / 2)**2 + cos(lat1) * cos(lat2) * sin(dlon / 2)**2\<close>.
\<close>

definition haversine_a :: "float_ops \<Rightarrow> real \<Rightarrow> real \<Rightarrow> real \<Rightarrow> real \<Rightarrow> real" where
  "haversine_a ops prev_lat prev_lon lat lon =
     (let lat1 = fradians ops prev_lat;
          lon1 = fradians ops prev_lon;
          lat2 = fradians ops lat;
          lon2 = fradians ops lon;
          dlon = fl ops (lon2 - lon1);
          dlat = fl ops (lat2 - lat1)
      in fl ops (fl ops ((fsin ops (fl ops (dlat / 2)))\<^sup>2) +
                 fl ops (fl ops (fcos ops lat1 * fcos ops lat2) *
                         fl ops ((fsin ops (fl ops (dlon / 2)))\<^sup>2))))"

text \<open>
  The distance in metres, as both \<open>handle_location\<close> (bot.py) and
  \<open>create_map_for_user\<close> (utils.py) compute it:
  \<open>c = 2 * atan2(sqrt(a), sqrt(1 - a))\<close> and \<open>distance = R * c\<close>.
\<close>

definition haversine_distance ::
  "float_ops \<Rightarrow> real \<Rightarrow> real \<Rightarrow> real \<Rightarrow> real \<Rightarrow> error + real" where
  "haversine_distance ops prev_lat prev_lon lat lon =
     (let R = 6371000;
          a = haversine_a ops prev_lat prev_lon lat lon
      in case py_sqrt ops a of
           Inl e \<Rightarrow> Inl e
         | Inr s \<Rightarrow>
             (case py_sqrt ops (fl ops (1 - a)) of
                Inl e \<Rightarrow> Inl e
              | Inr t \<Rightarrow> Inr (fl ops (R * fl ops (2 * fatan2 ops s t)))))"

text \<open>
  \<open>(distance / seconds) * 3.6 if seconds > 0 else 0\<close>, the speed in km/h of both
  modules. No branch and no exception depends on the rounding here, and the exact
  quotient and product stand for the rounded ones.
\<close>

definition speed_kmh :: "real \<Rightarrow> real \<Rightarrow> error + real" where
  "speed_kmh distance seconds =
     (if seconds > 0 then
        (case py_truediv distance seconds of
           Inl e \<Rightarrow> Inl e
         | Inr q \<Rightarrow> Inr (q * 3.6))
      else Inr 0)"

subsection \<open>bot.py: the movement classifier of handle_location\<close>

text \<open>
  \<open>chat_data[user_id]['last_location']\<close> is a dict that is read with \<open>.get\<close>, which
  gives \<open>None\<close> for a missing key. A time is a number of seconds; the dict stores
  \<open>current_time.isoformat()\<close>, a string that is never empty, and
  \<open>datetime.fromisoformat\<close> gives the time back.
\<close>

record last_location_dict =
  ll_latitude :: "real option"
  ll_longitude :: "real option"
  ll_timestamp :: "real option"
  ll_movement_status :: string
  ll_speed :: real

text \<open>
  \<open>chat_data[user_id]\<close>. The keys \<open>last_location\<close>, \<open>admin_notified\<close> and
  \<open>speed\<close> may be missing (\<open>None\<close> here); \<open>last_location\<close> may also hold the value
  \<open>None\<close>, which scheduled_tasks.py stores (\<open>Some None\<close> here).
\<close>

record user_data =
  movement_status :: string
  stationary_duration :: real
  last_location :: "last_location_dict option option"
  admin_notified :: "bool option"
  speed :: "real option"

definition new_user_data :: user_data where
  "new_user_data =
     \<lparr>movement_status = ''unknown'', stationary_duration = 0, last_location = None,
      admin_notified = None, speed = None\<rparr>"

text \<open>The truth value of a float that \<open>.get\<close> returned, and of a time string.\<close>

fun truthy_float :: "real option \<Rightarrow> bool" where
  "truthy_float None = False"
| "truthy_float (Some x) = (x \<noteq> 0)"

fun truthy_time :: "real option \<Rightarrow> bool" where
  "truthy_time None = False"
| "truthy_time (Some t) = True"

text \<open>
  The two branches on the distance. \<open>send_ok\<close> tells whether \<open>send_message\<close>
  to the administrator succeeds; the result holds the new \<open>location_type\<close>, the new
  data and whether a message was sent.
\<close>

definition stationary_branch ::
  "bool \<Rightarrow> user_data \<Rightarrow> string \<Rightarrow> real \<Rightarrow> string \<times> user_data \<times> bool" where
  "stationary_branch send_ok ud location_type time_diff_seconds =
     (let ud1 = ud\<lparr>stationary_duration := stationary_duration ud + time_diff_seconds\<rparr>
      in if stationary_duration ud1 > 300 then
           (let ud2 = ud1\<lparr>movement_status := ''stationary''\<rparr>
            in if stationary_duration ud2 > 1800 \<and>
                  \<not> (case admin_notified ud2 of None \<Rightarrow> False | Some b \<Rightarrow> b)
               then (if send_ok then (''stationary'', ud2\<lparr>admin_notified := Some True\<rparr>, True)
                     else (''stationary'', ud2, False))
               else (''stationary'', ud2, False))
         else (location_type, ud1, False))"

definition moving_branch :: "user_data \<Rightarrow> real \<Rightarrow> real \<Rightarrow> error + string \<times> user_data \<times> bool" where
  "moving_branch ud distance time_diff_seconds =
     (case speed_kmh distance time_diff_seconds of
        Inl e \<Rightarrow> Inl e
      | Inr v \<Rightarrow>
          Inr (''moving'',
               ud\<lparr>movement_status := ''moving'', stationary_duration := 0,
                  admin_notified := Some False, speed := Some v\<rparr>,
               False))"

definition compare_with_previous ::
  "float_ops \<Rightarrow> bool \<Rightarrow> user_data \<Rightarrow> real \<Rightarrow> real \<Rightarrow> real
     \<Rightarrow> error + string \<times> user_data \<times> bool" where
  "compare_with_previous ops send_ok ud lat lon current_time =
     (case last_location ud of
        None \<Rightarrow> Inr (''intermediate'', ud, False)
      | Some None \<Rightarrow> Inl AttributeError
      | Some (Some prev_loc) \<Rightarrow>
          if truthy_float (ll_latitude prev_loc) \<and> truthy_float (ll_longitude prev_loc) \<and>
             truthy_time (ll_timestamp prev_loc)
          then
            (case haversine_distance ops (the (ll_latitude prev_loc))
                    (the (ll_longitude prev_loc)) lat lon of
               Inl e \<Rightarrow> Inl e
             | Inr distance \<Rightarrow>
                 (let time_diff_seconds = current_time - the (ll_timestamp prev_loc)
                  in if distance < 10
                     then Inr (stationary_branch send_ok ud ''intermediate'' time_diff_seconds)
                     else moving_branch ud distance time_diff_seconds))
          else Inr (''intermediate'', ud, False))"

text \<open>
  The part of \<open>handle_location\<close> that classifies the new sample and stores it as the
  last location of the user.
\<close>

definition classify_location ::
  "float_ops \<Rightarrow> bool \<Rightarrow> (nat \<rightharpoonup> user_data) \<Rightarrow> nat \<Rightarrow> real \<Rightarrow> real \<Rightarrow> real
     \<Rightarrow> error + string \<times> (nat \<rightharpoonup> user_data) \<times> bool" where
  "classify_location ops send_ok chat_data user_id lat lon current_time =
     (let ud = (case chat_data user_id of None \<Rightarrow> new_user_data | Some d \<Rightarrow> d)
      in case compare_with_previous ops send_ok ud lat lon current_time of
           Inl e \<Rightarrow> Inl e
         | Inr (location_type, ud1, sent) \<Rightarrow>
             Inr (location_type,
                  chat_data(user_id \<mapsto>
                    ud1\<lparr>last_location := Some (Some
                      \<lparr>ll_latitude = Some lat, ll_longitude = Some lon,
                       ll_timestamp = Some current_time,
                       ll_movement_status = movement_status ud1,
                       ll_speed = (case speed ud1 of None \<Rightarrow> 0 | Some v \<Rightarrow> v)\<rparr>)\<rparr>),
                  sent))"

subsection \<open>utils.py: speed and movement status of a point of the map\<close>

text \<open>
  In \<open>create_map_for_user\<close> the speed of a point is computed only when its timestamp
  and the previous one are both datetime objects (\<open>Some\<close> of the time in seconds
  here), and is 0 otherwise.
\<close>

definition point_speed :: "real \<Rightarrow> real option \<Rightarrow> real option \<Rightarrow> error + real" where
  "point_speed distance timestamp last_time =
     (case (timestamp, last_time) of
        (Some t, Some t0) \<Rightarrow> speed_kmh distance (t - t0)
      | _ \<Rightarrow> Inr 0)"

definition point_movement_status :: "string \<Rightarrow> real \<Rightarrow> string" where
  "point_movement_status loc_type v =
     (if loc_type = ''start'' then ''start''
      else if loc_type = ''end'' then ''end''
      else if loc_type = ''stationary'' then ''stationary''
      else if loc_type = ''moving'' then (if v > 50 then ''fast_moving'' else ''moving'')
      else ''unknown'')"

subsection \<open>Concrete users\<close>

text \<open>
  A user whose last stored location lies on the equator, at \<open>(0.0, 30.0)\<close>, stored
  at time 0, who has been stationary for 400 seconds and about whom the administrator
  was told.
\<close>

definition equator_user :: user_data where
  "equator_user =
     \<lparr>movement_status = ''stationary'', stationary_duration = 400,
      last_location = Some (Some
        \<lparr>ll_latitude = Some 0, ll_longitude = Some 30, ll_timestamp = Some 0,
         ll_movement_status = ''stationary'', ll_speed = 0\<rparr>),
      admin_notified = Some True, speed = None\<rparr>"

section \<open>Properties of the segmentation loop\<close>

lemma loop_step_points:
  "concat (path_segments (loop_step L st ev)) @ current_segment (loop_step L st ev) =
   concat (path_segments st) @ current_segment st @ location_points [ev]"
  by (cases ev) (simp_all add: Let_def split: option.splits prod.splits)

lemma loop_points:
  "concat (path_segments (foldl (loop_step L) st evs)) @
     current_segment (foldl (loop_step L) st evs) =
   concat (path_segments st) @ current_segment st @ location_points evs"
proof (induction evs arbitrary: st)
  case Nil
  show ?case by simp
next
  case (Cons ev evs)
  have "concat (path_segments (foldl (loop_step L) (loop_step L st ev) evs)) @
          current_segment (foldl (loop_step L) (loop_step L st ev) evs) =
        (concat (path_segments (loop_step L st ev)) @ current_segment (loop_step L st ev)) @
          location_points evs"
    using Cons.IH [of "loop_step L st ev"] by simp
  also have "\<dots> = (concat (path_segments st) @ current_segment st @ location_points [ev]) @
                   location_points evs"
    by (simp only: loop_step_points)
  also have "\<dots> = concat (path_segments st) @ current_segment st @ location_points (ev # evs)"
    by (cases ev) simp_all
  finally show ?case by simp
qed

lemma loop_step_count:
  "length (path_segments (loop_step L st ev)) \<le> length (path_segments st) + status_count [ev]"
  by (cases ev) (simp_all add: Let_def split: option.splits prod.splits)

lemma loop_count:
  "length (path_segments (foldl (loop_step L) st evs)) \<le>
   length (path_segments st) + status_count evs"
proof (induction evs arbitrary: st)
  case Nil
  show ?case by simp
next
  case (Cons ev evs)
  have "length (path_segments (foldl (loop_step L) (loop_step L st ev) evs)) \<le>
        length (path_segments (loop_step L st ev)) + status_count evs"
    by (rule Cons.IH)
  also have "\<dots> \<le> (length (path_segments st) + status_count [ev]) + status_count evs"
    using loop_step_count [of L st ev] by simp
  also have "\<dots> = length (path_segments st) + status_count (ev # evs)"
    by (cases ev) simp_all
  finally show ?case by simp
qed

lemma close_last_points:
  "concat (path_segments (close_last st)) = concat (path_segments st) @ current_segment st"
  by (simp add: close_last_def)

lemma close_last_count: "length (path_segments (close_last st)) \<le> Suc (length (path_segments st))"
  by (simp add: close_last_def)

text \<open>
  C1. For every timeline and every list of location events, the segmentation loop
  produces at most k + 1 segments, where k is the number of status events of the
  timeline, and the concatenation of the segments in order is the list of the points of
  the timeline's location events, in the order of the timeline: no point is dropped,
  duplicated or moved.
\<close>

theorem segmentation_count_and_concat:
  "length (segmentation location_events all_events) \<le> status_count all_events + 1 \<and>
   concat (segmentation location_events all_events) = location_points all_events"
proof
  have "length (path_segments (run_loop location_events all_events)) \<le> status_count all_events"
    using loop_count [of location_events initial_state all_events]
    by (simp add: run_loop_def initial_state_def)
  then show "length (segmentation location_events all_events) \<le> status_count all_events + 1"
    using close_last_count [of "run_loop location_events all_events"]
    by (simp add: segmentation_def)
next
  show "concat (segmentation location_events all_events) = location_points all_events"
    using loop_points [of location_events initial_state all_events]
    by (simp add: segmentation_def close_last_points run_loop_def initial_state_def)
qed

section \<open>The nearest location of a status change\<close>

text \<open>
  C2. The claim asks for the location sample closest in time to the status change. The
  key the code sorts by compares the lengths of the two time strings, not the times.
  Run on the location events of 08:05 and 16:55 and a status change at 17:00, the code
  selects the sample of 08:05, although the sample of 16:55 is five minutes away.
\<close>

theorem closest_location_selects_first_sample:
  "closest_location morning_evening_events (TStr ''2024-01-01 17:00:00'') =
   Some (TStr ''2024-01-01 08:05:00'', 55, 37, ''start'', TStr ''2024-01-01 08:05:00'')"
  by (simp add: closest_location_def morning_evening_events_def)

lemma closest_location_empty: "closest_location [] time_key = None"
  by (simp add: closest_location_def)

text \<open>
  When every location event has a time string of 19 characters, as the timestamps the
  database writes have, every key of the sort is 0 and the sample selected is the first
  location event, whatever the time of the status change.
\<close>

lemma sort_key_constant: "\<forall>x\<in>set xs. f x = (c::int) \<Longrightarrow> sort_key f xs = xs"
proof (induction xs)
  case Nil
  show ?case by simp
next
  case (Cons x xs)
  then have "sort_key f xs = xs" by simp
  then show ?case using Cons.prems by (cases xs) simp_all
qed

lemma closest_location_usual_timestamps:
  assumes "\<forall>e\<in>set (e0 # es). \<exists>s. fst e = TStr s \<and> length s = 19"
    and "status_time_len time_key = 19"
  shows "closest_location (e0 # es) time_key = Some e0"
proof -
  have "\<forall>e\<in>set (e0 # es). nearest_key 19 e = 0"
  proof
    fix e assume "e \<in> set (e0 # es)"
    with assms(1) obtain s where "fst e = TStr s" "length s = 19" by blast
    then show "nearest_key 19 e = 0" by (cases e) simp
  qed
  then have "sort_key (nearest_key 19) (e0 # es) = e0 # es"
    by (rule sort_key_constant)
  then show ?thesis by (simp add: closest_location_def assms(2))
qed

section \<open>Running create_direct_map on concrete rows\<close>

lemmas parse_defs = strptime_padded_def field_def digit_of_def days_in_month_def

lemmas route_defs = build_route_def status_events_of_def location_events_of_def
  all_events_of_def py_sort_def safe_sort_key_def run_loop_def initial_state_def close_last_def
  closest_location_def point_marker_def Let_def

lemma map_elements_route:
  "valid_locations \<noteq> [] \<Longrightarrow>
   build_route strptime valid_locations status_history = Inr (location_events, st) \<Longrightarrow>
   map_elements strptime valid_locations status_history = Inr (render location_events st)"
  by (simp add: map_elements_def create_direct_map_def Let_def)

lemma scenario_d_route:
  "build_route strptime_padded scenario_d_locations scenario_d_statuses =
   Inr (map (\<lambda>(lat, lon, timestamp, session_id, loc_type).
               (time_key_of timestamp, lat, lon, loc_type, timestamp)) scenario_d_locations,
        \<lparr>path_segments = [scenario_d_points], current_segment = [], current_status = ''home'',
         added =
           [Marker (55, 37) ''purple'' InfoSign
              (StatusChange (TStr ''2024-01-01 08:00:00'') ''office''),
            Marker (55, 37) ''green'' Play (PointInfo ''office''),
            CircleMarker (56, 37) 3 ''blue'' (PointInfo ''office''),
            CircleMarker (57, 37) 3 ''blue'' (PointInfo ''office''),
            CircleMarker (58, 37) 3 ''blue'' (PointInfo ''office''),
            Marker (59, 37) ''orange'' Pause (PointInfo ''office''),
            CircleMarker (59, 38) 3 ''blue'' (PointInfo ''office''),
            CircleMarker (58, 38) 3 ''blue'' (PointInfo ''office''),
            CircleMarker (57, 38) 3 ''blue'' (PointInfo ''office''),
            CircleMarker (56, 38) 3 ''blue'' (PointInfo ''office''),
            Marker (55, 38) ''red'' Stop (PointInfo ''office''),
            Marker (55, 37) ''purple'' InfoSign
              (StatusChange (TStr ''2024-01-01 17:00:00'') ''home'')]\<rparr>)"
  by (simp add: route_defs parse_defs scenario_d_locations_def scenario_d_statuses_def
        scenario_d_points_def)

lemma scenario_d_elements:
  "map_elements strptime_padded scenario_d_locations scenario_d_statuses =
   Inr [Marker (55, 37) ''purple'' InfoSign
          (StatusChange (TStr ''2024-01-01 08:00:00'') ''office''),
        Marker (55, 37) ''green'' Play (PointInfo ''office''),
        CircleMarker (56, 37) 3 ''blue'' (PointInfo ''office''),
        CircleMarker (57, 37) 3 ''blue'' (PointInfo ''office''),
        CircleMarker (58, 37) 3 ''blue'' (PointInfo ''office''),
        Marker (59, 37) ''orange'' Pause (PointInfo ''office''),
        CircleMarker (59, 38) 3 ''blue'' (PointInfo ''office''),
        CircleMarker (58, 38) 3 ''blue'' (PointInfo ''office''),
        CircleMarker (57, 38) 3 ''blue'' (PointInfo ''office''),
        CircleMarker (56, 38) 3 ''blue'' (PointInfo ''office''),
        Marker (55, 38) ''red'' Stop (PointInfo ''office''),
        Marker (55, 37) ''purple'' InfoSign
          (StatusChange (TStr ''2024-01-01 17:00:00'') ''home''),
        CircleMarker (55, 37) 8 ''blue'' (SegmentStart 1 ''home''),
        CircleMarker (55, 38) 8 ''blue'' (SegmentEnd 1 ''home''),
        PolyLine scenario_d_points ''blue'' (SegmentInfo 1 ''home'' 10),
        Marker (55, 37) ''green'' Play RouteStart,
        Marker (55, 38) ''red'' Stop RouteEnd]"
proof -
  have ne: "scenario_d_locations \<noteq> []"
    by (simp add: scenario_d_locations_def)
  show ?thesis
    unfolding map_elements_route [OF ne scenario_d_route]
    by (simp add: render_def segment_elements_def route_elements_def colors_def
          scenario_d_locations_def scenario_d_points_def enumerate_eq_zip Let_def)
qed

lemma two_segment_route:
  "build_route strptime_padded two_segment_locations two_segment_statuses =
   Inr (map (\<lambda>(lat, lon, timestamp, session_id, loc_type).
               (time_key_of timestamp, lat, lon, loc_type, timestamp)) two_segment_locations,
        \<lparr>path_segments = [[(55, 37), (56, 37)], [(57, 37), (58, 37)]],
         current_segment = [(57, 37), (58, 37)],
         current_status = ''home'',
         added =
           [Marker (55, 37) ''purple'' InfoSign
              (StatusChange (TStr ''2024-01-01 08:00:00'') ''office''),
            Marker (55, 37) ''green'' Play (PointInfo ''office''),
            CircleMarker (56, 37) 3 ''blue'' (PointInfo ''office''),
            Marker (55, 37) ''purple'' InfoSign
              (StatusChange (TStr ''2024-01-01 12:00:00'') ''home''),
            CircleMarker (57, 37) 3 ''blue'' (PointInfo ''home''),
            Marker (58, 37) ''red'' Stop (PointInfo ''home'')]\<rparr>)"
  by (simp add: route_defs parse_defs two_segment_locations_def two_segment_statuses_def)

lemma two_segment_elements:
  "map_elements strptime_padded two_segment_locations two_segment_statuses =
   Inr [Marker (55, 37) ''purple'' InfoSign
          (StatusChange (TStr ''2024-01-01 08:00:00'') ''office''),
        Marker (55, 37) ''green'' Play (PointInfo ''office''),
        CircleMarker (56, 37) 3 ''blue'' (PointInfo ''office''),
        Marker (55, 37) ''purple'' InfoSign
          (StatusChange (TStr ''2024-01-01 12:00:00'') ''home''),
        CircleMarker (57, 37) 3 ''blue'' (PointInfo ''home''),
        Marker (58, 37) ''red'' Stop (PointInfo ''home''),
        CircleMarker (55, 37) 8 ''blue'' (SegmentStart 1 ''home''),
        CircleMarker (56, 37) 8 ''blue'' (SegmentEnd 1 ''home''),
        PolyLine [(55, 37), (56, 37)] ''blue'' (SegmentInfo 1 ''home'' 2),
        CircleMarker (57, 37) 8 ''red'' (SegmentStart 2 ''home''),
        CircleMarker (58, 37) 8 ''red'' (SegmentEnd 2 ''home''),
        PolyLine [(57, 37), (58, 37)] ''red'' (SegmentInfo 2 ''home'' 2),
        Marker (55, 37) ''green'' Play RouteStart,
        Marker (58, 37) ''red'' Stop RouteEnd]"
proof -
  have ne: "two_segment_locations \<noteq> []"
    by (simp add: two_segment_locations_def)
  show ?thesis
    unfolding map_elements_route [OF ne two_segment_route]
    by (simp add: render_def segment_elements_def route_elements_def colors_def
          two_segment_locations_def enumerate_eq_zip Let_def)
qed

text \<open>
  C3, as stated, fails. On the rows of the scenario (office at 08:00, home at 17:00, ten
  points from 08:05 to 16:55) the code produces one segment, not two: a segment is
  added to \<open>path_segments\<close> only when it is not empty, and no point follows the
  status change of 17:00.
\<close>

theorem scenario_d_has_one_segment:
  "route_segments strptime_padded scenario_d_locations scenario_d_statuses =
     Inr [scenario_d_points] \<and>
   length [scenario_d_points] \<noteq> 2"
  by (simp add: route_segments_def scenario_d_route)

text \<open>
  C3, amended. On the rows of the scenario the code produces exactly one segment, which
  holds the ten points in the order of their times; the map has one polyline, drawn
  over these ten points; the marker of each of the ten points shows the status
  \<open>office\<close>; and there is one status-change marker for \<open>office\<close> and one for
  \<open>home\<close>, each placed on one of the location points.
\<close>

theorem scenario_d_rendering:
  "route_segments strptime_padded scenario_d_locations scenario_d_statuses =
     Inr [scenario_d_points] \<and>
   length scenario_d_points = 10 \<and>
   (case map_elements strptime_padded scenario_d_locations scenario_d_statuses of
      Inl e \<Rightarrow> False
    | Inr es \<Rightarrow>
        map fst (polylines es) = [scenario_d_points] \<and>
        point_markers es = map (\<lambda>p. (p, ''office'')) scenario_d_points \<and>
        map snd (status_change_markers es) = [''office'', ''home''] \<and>
        set (map fst (status_change_markers es)) \<subseteq> set scenario_d_points)"
proof -
  have "route_segments strptime_padded scenario_d_locations scenario_d_statuses =
          Inr [scenario_d_points]"
    by (simp add: route_segments_def scenario_d_route)
  moreover have "length scenario_d_points = 10"
    by (simp add: scenario_d_points_def)
  moreover have
    "(case map_elements strptime_padded scenario_d_locations scenario_d_statuses of
        Inl e \<Rightarrow> False
      | Inr es \<Rightarrow>
          map fst (polylines es) = [scenario_d_points] \<and>
          point_markers es = map (\<lambda>p. (p, ''office'')) scenario_d_points \<and>
          map snd (status_change_markers es) = [''office'', ''home''] \<and>
          set (map fst (status_change_markers es)) \<subseteq> set scenario_d_points)"
    by (simp add: scenario_d_elements scenario_d_points_def)
  ultimately show ?thesis by blast
qed

text \<open>
  C4. The claim asks that a segment be drawn with the status that was current while its
  points were accumulated. The segments are drawn after the loop, with the value of
  \<open>current_status\<close> that the loop ended with. Run on two points under \<open>office\<close>
  followed by two points under \<open>home\<close>, the code draws both polylines with the status
  \<open>home\<close>, while the markers of the first two points show \<open>office\<close>.
\<close>

theorem polylines_show_the_last_status:
  "(case map_elements strptime_padded two_segment_locations two_segment_statuses of
      Inl e \<Rightarrow> False
    | Inr es \<Rightarrow>
        polylines es =
          [([(55, 37), (56, 37)], ''home''), ([(57, 37), (58, 37)], ''home'')] \<and>
        point_markers es =
          [((55, 37), ''office''), ((56, 37), ''office''),
           ((57, 37), ''home''), ((58, 37), ''home'')])"
  by (simp add: two_segment_elements)

text \<open>
  C5. The claim asks that the sort of the merged timeline never raise. The key of a
  string that parses is a datetime and the key of a string that does not parse is the
  string, and the two do not compare. Run on one status with the timestamp
  \<open>2024-01-01 08:00:00\<close> and one location with the timestamp \<open>2024-01-01 12:00\<close>,
  the code raises \<open>TypeError\<close>.
\<close>

theorem mixed_keys_raise_type_error:
  "create_direct_map strptime_padded user_name date location_without_seconds one_status =
   Inl TypeError"
  by (simp add: create_direct_map_def route_defs parse_defs location_without_seconds_def
        one_status_def)

text \<open>
  When every key is a datetime the sort does not raise, and its result is a permutation
  of the list that is non-decreasing in the key.
\<close>

lemma py_insort_datetime_keys:
  assumes "f x = TDatetime (g x)" and "\<forall>y\<in>set ys. f y = TDatetime (g y)"
    and "sorted (map g ys)"
  shows "\<exists>zs. py_insort f x ys = Inr zs \<and> mset zs = add_mset x (mset ys) \<and> sorted (map g zs)"
  using assms(2,3)
proof (induction ys)
  case Nil
  show ?case by simp
next
  case (Cons y ys)
  from Cons.prems have fy: "f y = TDatetime (g y)" by simp
  show ?case
  proof (cases "g x < g y")
    case True
    then show ?thesis using Cons.prems assms(1) fy by auto
  next
    case False
    from Cons obtain zs where zs: "py_insort f x ys = Inr zs" "mset zs = add_mset x (mset ys)"
      "sorted (map g zs)" by auto
    have "set zs = insert x (set ys)"
      using zs(2) by (metis set_mset_add_mset_insert set_mset_mset)
    then have "\<forall>z\<in>set zs. g y \<le> g z"
      using False Cons.prems(2) by auto
    then show ?thesis using False zs assms(1) fy by auto
  qed
qed

lemma py_sort_from_datetime_keys:
  assumes "\<forall>x\<in>set xs. f x = TDatetime (g x)" and "\<forall>y\<in>set acc. f y = TDatetime (g y)"
    and "sorted (map g acc)"
  shows "\<exists>ys. py_sort_from f acc xs = Inr ys \<and> mset ys = mset acc + mset xs \<and> sorted (map g ys)"
  using assms
proof (induction xs arbitrary: acc)
  case Nil
  then show ?case by simp
next
  case (Cons x xs)
  from Cons.prems obtain zs where zs: "py_insort f x acc = Inr zs"
    "mset zs = add_mset x (mset acc)" "sorted (map g zs)"
    using py_insort_datetime_keys [of f x g acc] by auto
  have "set zs = insert x (set acc)"
    using zs(2) by (metis set_mset_add_mset_insert set_mset_mset)
  then have "\<forall>y\<in>set zs. f y = TDatetime (g y)"
    using Cons.prems by auto
  with Cons.IH [of zs] Cons.prems zs(3)
  obtain ys where "py_sort_from f zs xs = Inr ys" "mset ys = mset zs + mset xs" "sorted (map g ys)"
    by auto
  then show ?case using zs by simp
qed

lemma py_sort_datetime_keys:
  assumes "\<forall>x\<in>set xs. f x = TDatetime (g x)"
  shows "\<exists>ys. py_sort f xs = Inr ys \<and> mset ys = mset xs \<and> sorted (map g ys)"
  using py_sort_from_datetime_keys [of xs f g "[]"] assms by (simp add: py_sort_def)

text \<open>
  C7. When the list of locations and the list of statuses are both empty,
  \<open>create_direct_map\<close> raises nothing and returns a map centred on the default
  location, whose only element is the marker that says there is no location data,
  placed at the default location.
\<close>

theorem empty_input_gives_no_data_map:
  "create_direct_map strptime user_name date [] [] =
   Inr \<lparr>location = default_center, zoom_start = 10,
        elements = [Marker default_center ''gray'' InfoSign NoLocationData],
        map_filename = filename_of user_name date\<rparr>"
  by (simp add: create_direct_map_def default_center_def)

section \<open>Distance and speed\<close>

text \<open>
  C8. For every distance and every number of seconds the speed is
  \<open>(distance / seconds) * 3.6\<close> when the seconds are positive and 0 otherwise; the
  division is never reached with a zero divisor, so \<open>ZeroDivisionError\<close> is never
  raised. The same holds for the speed of a point of the map in utils.py.
\<close>

theorem speed_kmh_never_divides_by_zero:
  "speed_kmh distance seconds = Inr (if seconds > 0 then distance / seconds * 3.6 else 0) \<and>
   point_speed distance (Some t) (Some t0) =
     Inr (if t - t0 > 0 then distance / (t - t0) * 3.6 else 0)"
  by (simp add: speed_kmh_def point_speed_def py_truediv_def)

section \<open>The distance\<close>

text \<open>
  C9. The distance is computed only when neither square root raises: the code raises
  \<open>ValueError\<close> exactly when the value of \<open>a\<close> is negative or \<open>1 - a\<close> is
  negative. The rounding decides this: for the in-range points \<open>(-87.5, -30.0)\<close>
  and \<open>(87.5, 150.0)\<close> the doubles give \<open>a = 1.0000000000000002\<close>, and the code
  raises in both directions instead of returning a distance.
\<close>

lemma haversine_distance_raises:
  "haversine_distance ops lat1 lon1 lat2 lon2 = Inl ValueError \<longleftrightarrow>
   haversine_a ops lat1 lon1 lat2 lon2 < 0 \<or> fl ops (1 - haversine_a ops lat1 lon1 lat2 lon2) < 0"
  by (simp add: haversine_distance_def py_sqrt_def Let_def)

text \<open>
  What holds of the code: the distance from a point to itself is computed and is 0,
  and the two directions between two points give the same outcome, the same distance
  or the same exception.
\<close>

lemma haversine_a_same_point:
  "exact_at_zero_and_one ops \<Longrightarrow> haversine_a ops lat lon lat lon = 0"
  by (simp add: exact_at_zero_and_one_def haversine_a_def)

lemma haversine_same_point:
  "exact_at_zero_and_one ops \<Longrightarrow> haversine_distance ops lat lon lat lon = Inr 0"
  by (simp add: haversine_distance_def haversine_a_same_point py_sqrt_def)
    (simp add: exact_at_zero_and_one_def)

lemma rounded_half_sine_squared:
  assumes "sign_symmetric ops"
  shows "(fsin ops (fl ops (fl ops (y - x) / 2)))\<^sup>2 = (fsin ops (fl ops (fl ops (x - y) / 2)))\<^sup>2"
proof -
  have m: "fl ops (- u) = - fl ops u" and n: "fsin ops (- u) = - fsin ops u" for u
    using assms by (simp_all add: sign_symmetric_def)
  have "fl ops (y - x) = - fl ops (x - y)"
    using m [of "x - y"] by simp
  then have "fl ops (fl ops (y - x) / 2) = - fl ops (fl ops (x - y) / 2)"
    using m [of "fl ops (x - y) / 2"] by simp
  then have "fsin ops (fl ops (fl ops (y - x) / 2)) = - fsin ops (fl ops (fl ops (x - y) / 2))"
    by (simp only: n)
  then show ?thesis by simp
qed

lemma haversine_a_swap:
  assumes "sign_symmetric ops"
  shows "haversine_a ops lat1 lon1 lat2 lon2 = haversine_a ops lat2 lon2 lat1 lon1"
  unfolding haversine_a_def Let_def
  by (simp only:
        rounded_half_sine_squared [OF assms, of "fradians ops lat2" "fradians ops lat1"]
        rounded_half_sine_squared [OF assms, of "fradians ops lon2" "fradians ops lon1"]
        mult.commute [of "fcos ops (fradians ops lat1)" "fcos ops (fradians ops lat2)"])

lemma haversine_swap:
  "sign_symmetric ops \<Longrightarrow>
   haversine_distance ops lat1 lon1 lat2 lon2 = haversine_distance ops lat2 lon2 lat1 lon1"
  by (simp add: haversine_distance_def haversine_a_swap [of ops lat1 lon1 lat2 lon2])

lemma exact_ops_laws: "exact_at_zero_and_one exact_ops \<and> sign_symmetric exact_ops"
  by (simp add: exact_at_zero_and_one_def sign_symmetric_def exact_ops_def atan2_def)

section \<open>The movement classifier\<close>

text \<open>
  C6. The claim asks that a new sample at 10 metres or more from the previous one be
  labelled \<open>moving\<close>, with the stationary duration reset and the administrator flag
  cleared. The previous sample of \<open>equator_user\<close> is \<open>(0.0, 30.0)\<close> and the new
  sample \<open>(1.0, 30.0)\<close>, 60 seconds later, lies more than 100 km from it. The
  latitude 0.0 is not truthy, so the code does not compare the two samples: the new
  sample is \<open>intermediate\<close>, the stationary duration stays 400, the administrator
  flag stays set and no speed is stored.
\<close>

theorem far_sample_after_equator_not_moving:
  "classify_location ops True [7 \<mapsto> equator_user] 7 1 30 60 =
     Inr (''intermediate'',
          [7 \<mapsto>
            \<lparr>movement_status = ''stationary'', stationary_duration = 400,
             last_location = Some (Some
               \<lparr>ll_latitude = Some 1, ll_longitude = Some 30, ll_timestamp = Some 60,
                ll_movement_status = ''stationary'', ll_speed = 0\<rparr>),
             admin_notified = Some True, speed = None\<rparr>],
          False)"
  by (simp add: classify_location_def compare_with_previous_def equator_user_def)

text \<open>
  When the previous sample is compared and the distance is computed, the code does what
  the claim says: a sample at 10 metres or more is \<open>moving\<close>, the stationary duration
  is 0, the flag is cleared, and the speed is stored as it is computed.
\<close>

lemma compared_far_sample_is_moving:
  assumes "last_location ud = Some (Some prev_loc)"
    and "ll_latitude prev_loc = Some prev_lat" and "prev_lat \<noteq> 0"
    and "ll_longitude prev_loc = Some prev_lon" and "prev_lon \<noteq> 0"
    and "ll_timestamp prev_loc = Some prev_time"
    and "haversine_distance ops prev_lat prev_lon lat lon = Inr distance"
    and "10 \<le> distance"
  shows "compare_with_previous ops send_ok ud lat lon current_time =
           Inr (''moving'',
                ud\<lparr>movement_status := ''moving'', stationary_duration := 0,
                   admin_notified := Some False,
                   speed := Some (if current_time - prev_time > 0
                                  then distance / (current_time - prev_time) * 3.6 else 0)\<rparr>,
                False)"
  using assms
  by (simp add: compare_with_previous_def moving_branch_def speed_kmh_def py_truediv_def)

text \<open>
  C10. The stored previous sample is compared with the new one only if its latitude,
  longitude and timestamp are all truthy. So when the latitude or the longitude of the
  previous sample is 0.0, no distance and no speed are computed, the data of the user
  are left as they were (the stationary duration is neither advanced nor reset), the
  new sample keeps the type \<open>intermediate\<close>, and the whole classification gives what
  it gives for a user with no previous sample.
\<close>

theorem falsy_previous_sample_is_ignored:
  assumes "chat_data user_id = Some ud"
    and "last_location ud = Some (Some prev_loc)"
    and "ll_latitude prev_loc = Some 0 \<or> ll_longitude prev_loc = Some 0 \<or>
         \<not> (truthy_float (ll_latitude prev_loc) \<and> truthy_float (ll_longitude prev_loc) \<and>
            truthy_time (ll_timestamp prev_loc))"
  shows "compare_with_previous ops send_ok ud lat lon current_time =
           Inr (''intermediate'', ud, False) \<and>
         classify_location ops send_ok chat_data user_id lat lon current_time =
           classify_location ops send_ok (chat_data(user_id \<mapsto> ud\<lparr>last_location := None\<rparr>))
             user_id lat lon current_time"
proof -
  have n: "\<not> (truthy_float (ll_latitude prev_loc) \<and> truthy_float (ll_longitude prev_loc) \<and>
              truthy_time (ll_timestamp prev_loc))"
    using assms(3) by auto
  have c: "compare_with_previous ops send_ok ud lat lon current_time =
             Inr (''intermediate'', ud, False)"
    using assms(2) n by (auto simp add: compare_with_previous_def)
  have c': "compare_with_previous ops send_ok (ud\<lparr>last_location := None\<rparr>) lat lon current_time =
             Inr (''intermediate'', ud\<lparr>last_location := None\<rparr>, False)"
    by (simp add: compare_with_previous_def)
  have "classify_location ops send_ok chat_data user_id lat lon current_time =
          classify_location ops send_ok (chat_data(user_id \<mapsto> ud\<lparr>last_location := None\<rparr>))
            user_id lat lon current_time"
    using assms(1) by (simp add: classify_location_def c c')
  with c show ?thesis by simp
qed

text \<open>
  C10 at a concrete input: the user 7 is \<open>equator_user\<close>, whose previous sample has
  the latitude 0.0.
\<close>

theorem falsy_previous_sample_is_ignored_witness:
  "compare_with_previous exact_ops True equator_user 1 30 60 =
     Inr (''intermediate'', equator_user, False) \<and>
   classify_location exact_ops True [7 \<mapsto> equator_user] 7 1 30 60 =
     classify_location exact_ops True [7 \<mapsto> equator_user\<lparr>last_location := None\<rparr>] 7 1 30 60"
proof -
  have l: "last_location equator_user = Some (Some
     \<lparr>ll_latitude = Some 0, ll_longitude = Some 30, ll_timestamp = Some 0,
      ll_movement_status = ''stationary'', ll_speed = 0\<rparr>)"
    by (simp add: equator_user_def)
  have u: "[7 \<mapsto> equator_user] (7::nat) = Some equator_user"
    by simp
  show ?thesis
    using falsy_previous_sample_is_ignored [where chat_data = "[7 \<mapsto> equator_user]"
        and user_id = 7 and ud = equator_user and ops = exact_ops and send_ok = True
        and lat = 1 and lon = 30 and current_time = 60, OF u l]
    by simp
qed

end
